theory Spec2Isabelle
  imports Complex_Main "HOL-Library.Sublist" "HOL-Library.Word"
begin

section \<open>Values of the program\<close>

subsection \<open>Exceptions\<close>

text \<open>
  The exception classes the program raises, catches or lets through. The third field of
  \<open>HTTPError\<close> is the part of the response body that has not been read yet (the
  exception object wraps the response stream). \<open>KeyboardInterrupt\<close> and
  \<open>SystemExit\<close> derive from \<open>BaseException\<close> only; \<open>ClientError\<close> (botocore) derives
  from \<open>Exception\<close> directly, \<open>NoCredentialsError\<close> from \<open>BotoCoreError\<close>.
  The string of an exception is its message (for \<open>KeyError\<close> the key, for \<open>ClientError\<close>
  the error code and the message); the messages Python builds itself are abbreviated.
\<close>

datatype exn =
    HTTPError nat string string
  | URLError string
  | JSONDecodeError string
  | AttributeError string
  | TypeError string
  | KeyError string
  | ValueError string
  | FileNotFoundError string
  | OSError string
  | TimeoutError string
  | UnidentifiedImageError string
  | BotoCoreError string
  | NoCredentialsError
  | ClientError string string
  | KeyboardInterrupt
  | SystemExit nat

text \<open>\<^verbatim>\<open>except Exception\<close>: every class above but the two that are \<open>BaseException\<close> only.\<close>

fun is_Exception :: "exn \<Rightarrow> bool" where
  "is_Exception KeyboardInterrupt = False"
| "is_Exception (SystemExit _) = False"
| "is_Exception _ = True"

text \<open>\<^verbatim>\<open>except urllib.error.HTTPError\<close>.\<close>

fun is_HTTPError :: "exn \<Rightarrow> bool" where
  "is_HTTPError (HTTPError _ _ _) = True"
| "is_HTTPError _ = False"

text \<open>\<^verbatim>\<open>except (BotoCoreError, NoCredentialsError)\<close>.\<close>

fun is_BotoCoreError :: "exn \<Rightarrow> bool" where
  "is_BotoCoreError (BotoCoreError _) = True"
| "is_BotoCoreError NoCredentialsError = True"
| "is_BotoCoreError _ = False"

subsection \<open>JSON values as Python sees them\<close>

text \<open>
  What \<^verbatim>\<open>json.load\<close> returns. A dict keeps the order in which its keys were inserted, so
  it is an association list; lookup takes the first entry of a key.
\<close>

datatype json =
    JNull
  | JBool bool
  | JInt int
  | JFloat rat
  | JStr string
  | JList "json list"
  | JDict "(string \<times> json) list"

type_synonym bytes = "8 word list"

datatype level = INFO | WARNING | ERROR

type_synonym log_record = "level \<times> string"

text \<open>\<^verbatim>\<open>d[k] = v\<close> on a dict: an existing key keeps its place, a new key goes last.\<close>

fun dict_set :: "'k \<Rightarrow> 'v \<Rightarrow> ('k \<times> 'v) list \<Rightarrow> ('k \<times> 'v) list" where
  "dict_set k v [] = [(k, v)]"
| "dict_set k v ((k', v') # kvs) =
     (if k' = k then (k, v) # kvs else (k', v') # dict_set k v kvs)"

text \<open>\<^verbatim>\<open>x.get(k, d)\<close>: only a dict has the method.\<close>

definition py_get :: "json \<Rightarrow> string \<Rightarrow> json \<Rightarrow> exn + json" where
  "py_get x k d =
     (case x of
        JDict kvs \<Rightarrow> Inr (case map_of kvs k of Some v \<Rightarrow> v | None \<Rightarrow> d)
      | _ \<Rightarrow> Inl (AttributeError ''object has no attribute get''))"

text \<open>\<^verbatim>\<open>k in x\<close> for a string \<open>k\<close>: a key of a dict, an element of a list, a substring of a string.\<close>

definition py_contains :: "string \<Rightarrow> json \<Rightarrow> exn + bool" where
  "py_contains k x =
     (case x of
        JDict kvs \<Rightarrow> Inr (map_of kvs k \<noteq> None)
      | JList xs \<Rightarrow> Inr (JStr k \<in> set xs)
      | JStr s \<Rightarrow> Inr (sublist k s)
      | _ \<Rightarrow> Inl (TypeError ''argument is not iterable''))"

text \<open>\<^verbatim>\<open>x[k]\<close> for a string \<open>k\<close>.\<close>

definition py_getitem :: "json \<Rightarrow> string \<Rightarrow> exn + json" where
  "py_getitem x k =
     (case x of
        JDict kvs \<Rightarrow> (case map_of kvs k of Some v \<Rightarrow> Inr v | None \<Rightarrow> Inl (KeyError k))
      | _ \<Rightarrow> Inl (TypeError ''object is not subscriptable''))"

text \<open>\<^verbatim>\<open>x[k] = v\<close> for a string \<open>k\<close>.\<close>

definition py_setitem :: "json \<Rightarrow> string \<Rightarrow> json \<Rightarrow> exn + json" where
  "py_setitem x k v =
     (case x of
        JDict kvs \<Rightarrow> Inr (JDict (dict_set k v kvs))
      | _ \<Rightarrow> Inl (TypeError ''object does not support item assignment''))"

text \<open>\<^verbatim>\<open>x.items()\<close>.\<close>

definition py_items :: "json \<Rightarrow> exn + (string \<times> json) list" where
  "py_items x = (case x of JDict kvs \<Rightarrow> Inr kvs | _ \<Rightarrow> Inl (AttributeError ''object has no attribute items''))"

text \<open>\<^verbatim>\<open>for y in x\<close>: the elements of a list, the keys of a dict, the characters of a string.\<close>

definition py_iter :: "json \<Rightarrow> exn + json list" where
  "py_iter x =
     (case x of
        JList xs \<Rightarrow> Inr xs
      | JDict kvs \<Rightarrow> Inr (map (\<lambda>(k, _). JStr k) kvs)
      | JStr s \<Rightarrow> Inr (map (\<lambda>c. JStr [c]) s)
      | _ \<Rightarrow> Inl (TypeError ''object is not iterable''))"

text \<open>Truth value of an object.\<close>

fun py_truthy :: "json \<Rightarrow> bool" where
  "py_truthy JNull = False"
| "py_truthy (JBool b) = b"
| "py_truthy (JInt i) = (i \<noteq> 0)"
| "py_truthy (JFloat r) = (r \<noteq> 0)"
| "py_truthy (JStr s) = (s \<noteq> [])"
| "py_truthy (JList xs) = (xs \<noteq> [])"
| "py_truthy (JDict kvs) = (kvs \<noteq> [])"

text \<open>\<^verbatim>\<open>str.lower\<close> on ASCII text (strings here are lists of 8-bit characters).\<close>

definition ascii_lower :: "char \<Rightarrow> char" where
  "ascii_lower c =
     (case map_of (zip ''ABCDEFGHIJKLMNOPQRSTUVWXYZ'' ''abcdefghijklmnopqrstuvwxyz'') c of
        Some l \<Rightarrow> l
      | None \<Rightarrow> c)"

definition lower :: "string \<Rightarrow> string" where
  "lower s = map ascii_lower s"

definition py_lower :: "json \<Rightarrow> exn + string" where
  "py_lower x = (case x of JStr s \<Rightarrow> Inr (lower s) | _ \<Rightarrow> Inl (AttributeError ''object has no attribute lower''))"

section \<open>utils.py: the node patchers\<close>

text \<open>
  One pass of the loop body of \<^verbatim>\<open>patch_prompt_text_node\<close> on one item: \<open>Inl e\<close> when the
  body raises, \<open>Inr None\<close> when it falls through to the next item, \<open>Inr (Some (node', l))\<close>
  when it has patched the node (to \<open>node'\<close>), logged \<open>l\<close> and returned.
\<close>

definition prompt_node_step :: "string \<Rightarrow> json \<Rightarrow> string \<Rightarrow> exn + (json \<times> log_record) option" where
  "prompt_node_step node_id node prompt_text =
     (case node of
        JDict fields \<Rightarrow>
          (case py_get node ''class_type'' JNull of
             Inl e \<Rightarrow> Inl e
           | Inr ct \<Rightarrow>
               if ct = JStr ''CLIPTextEncode'' then
                 (case py_get node ''_meta'' (JDict []) of
                    Inl e \<Rightarrow> Inl e
                  | Inr meta \<Rightarrow>
                      (case py_get meta ''title'' (JStr '''') of
                         Inl e \<Rightarrow> Inl e
                       | Inr t \<Rightarrow>
                           (case py_lower t of
                              Inl e \<Rightarrow> Inl e
                            | Inr title \<Rightarrow>
                                if sublist ''negative'' title then Inr None
                                else
                                  (case py_get node ''inputs'' (JDict []) of
                                     Inl e \<Rightarrow> Inl e
                                   | Inr inputs \<Rightarrow>
                                       (case py_contains ''text'' inputs of
                                          Inl e \<Rightarrow> Inl e
                                        | Inr False \<Rightarrow> Inr None
                                        | Inr True \<Rightarrow>
                                            (case py_setitem inputs ''text'' (JStr prompt_text) of
                                               Inl e \<Rightarrow> Inl e
                                             | Inr inputs' \<Rightarrow>
                                                 Inr (Some (JDict (dict_set ''inputs'' inputs' fields),
                                                   (INFO, ''Patching CLIPTextEncode node '' @ node_id
                                                      @ '' (title: '' @ title @ '') with new prompt.'')))))))))
               else Inr None)
      | _ \<Rightarrow> Inr None)"

text \<open>
  The \<^verbatim>\<open>for\<close> loop over \<^verbatim>\<open>workflow.items()\<close>: \<open>Inr None\<close> when the loop ends without a
  match, \<open>Inr (Some (items', l))\<close> with the items after the in-place update otherwise.
\<close>

fun patch_prompt_items ::
  "(string \<times> json) list \<Rightarrow> string \<Rightarrow> exn + ((string \<times> json) list \<times> log_record) option" where
  "patch_prompt_items [] prompt_text = Inr None"
| "patch_prompt_items ((node_id, node) # rest) prompt_text =
     (case prompt_node_step node_id node prompt_text of
        Inl e \<Rightarrow> Inl e
      | Inr (Some (node', l)) \<Rightarrow> Inr (Some ((node_id, node') # rest, l))
      | Inr None \<Rightarrow>
          (case patch_prompt_items rest prompt_text of
             Inl e \<Rightarrow> Inl e
           | Inr None \<Rightarrow> Inr None
           | Inr (Some (rest', l)) \<Rightarrow> Inr (Some ((node_id, node) # rest', l))))"

text \<open>
  \<^verbatim>\<open>patch_prompt_text_node(workflow, prompt_text)\<close>. The workflow is mutated in place, so
  the result is the outcome, the workflow afterwards and what was logged.
\<close>

definition patch_prompt_text_node ::
  "json \<Rightarrow> string \<Rightarrow> (exn + unit) \<times> json \<times> log_record list" where
  "patch_prompt_text_node workflow prompt_text =
     (case py_items workflow of
        Inl e \<Rightarrow> (Inl e, workflow, [])
      | Inr items \<Rightarrow>
          (case patch_prompt_items items prompt_text of
             Inl e \<Rightarrow> (Inl e, workflow, [])
           | Inr (Some (items', l)) \<Rightarrow> (Inr (), JDict items', [l])
           | Inr None \<Rightarrow>
               (Inl (ValueError
                  ''No suitable CLIPTextEncode node (non-negative) with 'text' input found in workflow.''),
                workflow, [])))"

text \<open>
  The loop body of \<^verbatim>\<open>patch_load_image_node\<close>. In
  \<^verbatim>\<open>node["inputs"]["image"] = image_info["name"]\<close> the right-hand side is evaluated first.
\<close>

definition image_node_step :: "string \<Rightarrow> json \<Rightarrow> json \<Rightarrow> exn + (json \<times> log_record) option" where
  "image_node_step node_id node image_info =
     (case py_get node ''class_type'' JNull of
        Inl e \<Rightarrow> Inl e
      | Inr ct \<Rightarrow>
          if ct = JStr ''LoadImage'' then
            (case py_get node ''inputs'' (JDict []) of
               Inl e \<Rightarrow> Inl e
             | Inr inputs \<Rightarrow>
                 (case py_contains ''image'' inputs of
                    Inl e \<Rightarrow> Inl e
                  | Inr False \<Rightarrow> Inr None
                  | Inr True \<Rightarrow>
                      (case py_getitem image_info ''name'' of
                         Inl e \<Rightarrow> Inl e
                       | Inr name \<Rightarrow>
                           (case py_getitem node ''inputs'' of
                              Inl e \<Rightarrow> Inl e
                            | Inr target \<Rightarrow>
                                (case py_setitem target ''image'' name of
                                   Inl e \<Rightarrow> Inl e
                                 | Inr target' \<Rightarrow>
                                     (case py_setitem node ''inputs'' target' of
                                        Inl e \<Rightarrow> Inl e
                                      | Inr node' \<Rightarrow>
                                          Inr (Some (node',
                                            (INFO, ''Patching LoadImage node '' @ node_id
                                               @ '' with uploaded image filename.'')))))))))
          else Inr None)"

fun patch_image_items ::
  "(string \<times> json) list \<Rightarrow> json \<Rightarrow> exn + ((string \<times> json) list \<times> log_record) option" where
  "patch_image_items [] image_info = Inr None"
| "patch_image_items ((node_id, node) # rest) image_info =
     (case image_node_step node_id node image_info of
        Inl e \<Rightarrow> Inl e
      | Inr (Some (node', l)) \<Rightarrow> Inr (Some ((node_id, node') # rest, l))
      | Inr None \<Rightarrow>
          (case patch_image_items rest image_info of
             Inl e \<Rightarrow> Inl e
           | Inr None \<Rightarrow> Inr None
           | Inr (Some (rest', l)) \<Rightarrow> Inr (Some ((node_id, node) # rest', l))))"

definition patch_load_image_node ::
  "json \<Rightarrow> json \<Rightarrow> (exn + unit) \<times> json \<times> log_record list" where
  "patch_load_image_node workflow image_info =
     (case py_items workflow of
        Inl e \<Rightarrow> (Inl e, workflow, [])
      | Inr items \<Rightarrow>
          (case patch_image_items items image_info of
             Inl e \<Rightarrow> (Inl e, workflow, [])
           | Inr (Some (items', l)) \<Rightarrow> (Inr (), JDict items', [l])
           | Inr None \<Rightarrow>
               (Inl (ValueError ''No LoadImage node with 'image' input found in workflow.''),
                workflow, [])))"

subsection \<open>The patchers' contract, in the words of the specification\<close>

definition node_title :: "json \<Rightarrow> string" where
  "node_title node =
     (case node of
        JDict fields \<Rightarrow>
          (case map_of fields ''_meta'' of
             Some (JDict m) \<Rightarrow> (case map_of m ''title'' of Some (JStr t) \<Rightarrow> t | _ \<Rightarrow> '''')
           | _ \<Rightarrow> '''')
      | _ \<Rightarrow> '''')"

definition has_input :: "string \<Rightarrow> json \<Rightarrow> bool" where
  "has_input name node =
     (case node of
        JDict fields \<Rightarrow>
          (case map_of fields ''inputs'' of
             Some (JDict ins) \<Rightarrow> map_of ins name \<noteq> None
           | _ \<Rightarrow> False)
      | _ \<Rightarrow> False)"

definition has_role :: "string \<Rightarrow> json \<Rightarrow> bool" where
  "has_role role node =
     (case node of JDict fields \<Rightarrow> map_of fields ''class_type'' = Some (JStr role) | _ \<Rightarrow> False)"

definition spec_prompt_target :: "json \<Rightarrow> bool" where
  "spec_prompt_target node \<longleftrightarrow>
     has_role ''CLIPTextEncode'' node
     \<and> \<not> sublist (lower ''negative'') (lower (node_title node))
     \<and> has_input ''text'' node"

definition spec_image_target :: "json \<Rightarrow> bool" where
  "spec_image_target node \<longleftrightarrow> has_role ''LoadImage'' node \<and> has_input ''image'' node"

definition node_record :: "json \<Rightarrow> bool" where
  "node_record node =
     (case node of
        JDict fields \<Rightarrow>
          (case map_of fields ''class_type'' of Some (JStr _) \<Rightarrow> True | _ \<Rightarrow> False)
          \<and> (case map_of fields ''inputs'' of Some (JDict _) \<Rightarrow> True | _ \<Rightarrow> False)
          \<and> (case map_of fields ''_meta'' of
                None \<Rightarrow> True
              | Some (JDict m) \<Rightarrow>
                  (case map_of m ''title'' of None \<Rightarrow> True | Some (JStr _) \<Rightarrow> True | _ \<Rightarrow> False)
              | _ \<Rightarrow> False)
      | _ \<Rightarrow> False)"

definition workflow_document :: "json \<Rightarrow> bool" where
  "workflow_document w =
     (case w of
        JDict nodes \<Rightarrow> distinct (map fst nodes) \<and> list_all (\<lambda>(_, node). node_record node) nodes
      | _ \<Rightarrow> False)"

definition set_input :: "string \<Rightarrow> json \<Rightarrow> json \<Rightarrow> json" where
  "set_input name v node =
     (case node of
        JDict fields \<Rightarrow>
          (case map_of fields ''inputs'' of
             Some (JDict ins) \<Rightarrow> JDict (dict_set ''inputs'' (JDict (dict_set name v ins)) fields)
           | _ \<Rightarrow> node)
      | _ \<Rightarrow> node)"


definition node_field :: "string \<Rightarrow> json \<Rightarrow> json option" where
  "node_field f node = (case node of JDict fields \<Rightarrow> map_of fields f | _ \<Rightarrow> None)"

definition node_input :: "string \<Rightarrow> json \<Rightarrow> json option" where
  "node_input name node =
     (case node_field ''inputs'' node of Some (JDict ins) \<Rightarrow> map_of ins name | _ \<Rightarrow> None)"

definition field_names :: "json \<Rightarrow> string list" where
  "field_names x = (case x of JDict kvs \<Rightarrow> map fst kvs | _ \<Rightarrow> [])"

definition input_names :: "json \<Rightarrow> string list" where
  "input_names node = (case node_field ''inputs'' node of Some ins \<Rightarrow> field_names ins | None \<Rightarrow> [])"


definition workflow_nodes :: "json \<Rightarrow> (string \<times> json) list" where
  "workflow_nodes w = (case w of JDict nodes \<Rightarrow> nodes | _ \<Rightarrow> [])"

section \<open>The outside world\<close>

text \<open>
  The program talks to a server, a file system, an image library, an object store and a
  clock. What they answer is given by an environment of functions; what the program did
  to them is recorded, in order, in the trace of the world. An answer that can change
  from one call to the next takes the number of earlier calls of its kind as argument.
\<close>

datatype image = Image "nat list"

record s3_request =
  s3_region_name :: string
  s3_access_key_id :: "string option"
  s3_secret_access_key :: "string option"
  s3_endpoint_url :: "string option"
  s3_Bucket :: "string option"
  s3_Key :: string
  s3_Body :: bytes
  s3_ContentType :: string

text \<open>
  \<open>PostPrompt\<close>, \<open>GetHistory\<close>, \<open>GetView\<close>, \<open>UploadImage\<close> and \<open>PutObject\<close> are requests
  sent, whatever the answer; \<open>Makedirs\<close>, \<open>SaveImage\<close> (the image written to the path, in
  the format of its extension) are changes of the file system that took
  place; \<open>Sleep\<close> is a call of \<^verbatim>\<open>time.sleep\<close> and \<open>Log\<close> a record handed to \<^verbatim>\<open>logging\<close>.
\<close>

datatype event =
    Log level string
  | PostPrompt string json
  | GetHistory string string
  | GetView string json json json
  | UploadImage string string
  | PutObject s3_request
  | Makedirs string
  | SaveImage string image
  | ShowImage image
  | Sleep real

record world =
  now :: real
  trace :: "event list"

record args =
  arg_workflow :: string
  arg_prompt :: "string option"
  arg_server :: string
  arg_save :: bool
  arg_upload_image :: "string option"

record defaults =
  default_server :: string
  default_workflow :: string
  default_save_images :: bool

record env =
  getenv :: "string \<Rightarrow> string option"
  uuid4 :: string
  parse_args :: "defaults \<Rightarrow> exn + args"
  path_exists :: "string \<Rightarrow> bool"
  read_json :: "string \<Rightarrow> exn + json"
  upload_response :: "string \<Rightarrow> string \<Rightarrow> exn + json"
  post_prompt :: "string \<Rightarrow> json \<Rightarrow> exn + string"
  history_response :: "nat \<Rightarrow> exn + json"
  poll_duration :: "nat \<Rightarrow> real"
  sleep_overshoot :: "nat \<Rightarrow> real"
  view_response :: "nat \<Rightarrow> json \<Rightarrow> json \<Rightarrow> json \<Rightarrow> exn + bytes"
  makedirs :: "string \<Rightarrow> exn option"
  image_open :: "bytes \<Rightarrow> exn + image"
  image_save :: "string \<Rightarrow> image \<Rightarrow> exn option"
  put_object :: "s3_request \<Rightarrow> exn option"

definition emit :: "event \<Rightarrow> world \<Rightarrow> world" where
  "emit ev w = w\<lparr>trace := trace w @ [ev]\<rparr>"

definition logging :: "level \<Rightarrow> string \<Rightarrow> world \<Rightarrow> world" where
  "logging l msg w = emit (Log l msg) w"

fun is_GetHistory :: "event \<Rightarrow> bool" where
  "is_GetHistory (GetHistory _ _) = True"
| "is_GetHistory _ = False"

fun is_GetView :: "event \<Rightarrow> bool" where
  "is_GetView (GetView _ _ _ _) = True"
| "is_GetView _ = False"

fun is_Sleep :: "event \<Rightarrow> bool" where
  "is_Sleep (Sleep _) = True"
| "is_Sleep _ = False"

fun is_PostPrompt :: "event \<Rightarrow> bool" where
  "is_PostPrompt (PostPrompt _ _) = True"
| "is_PostPrompt _ = False"

fun is_SaveImage :: "event \<Rightarrow> bool" where
  "is_SaveImage (SaveImage _ _) = True"
| "is_SaveImage _ = False"

text \<open>How many polls, retrievals and sleeps the world has seen.\<close>

definition polls :: "world \<Rightarrow> nat" where
  "polls w = length (filter is_GetHistory (trace w))"

definition views :: "world \<Rightarrow> nat" where
  "views w = length (filter is_GetView (trace w))"

definition sleeps :: "world \<Rightarrow> nat" where
  "sleeps w = length (filter is_Sleep (trace w))"

subsection \<open>Text of numbers and of exceptions\<close>

text \<open>\<^verbatim>\<open>str(n)\<close> for a natural number: its decimal digits.\<close>

fun str_nat :: "nat \<Rightarrow> string" where
  "str_nat n =
     (if n < 10 then [''0123456789'' ! n]
      else str_nat (n div 10) @ [''0123456789'' ! (n mod 10)])"

declare str_nat.simps [simp del]

definition str_opt :: "string option \<Rightarrow> string" where
  "str_opt x = (case x of Some s \<Rightarrow> s | None \<Rightarrow> ''None'')"

text \<open>\<^verbatim>\<open>str(e)\<close>, as the f-strings of the log messages take it.\<close>

fun exn_str :: "exn \<Rightarrow> string" where
  "exn_str (HTTPError code reason body) = ''HTTP Error '' @ str_nat code @ '': '' @ reason"
| "exn_str (URLError reason) = ''<urlopen error '' @ reason @ ''>''"
| "exn_str (JSONDecodeError msg) = msg"
| "exn_str (AttributeError msg) = msg"
| "exn_str (TypeError msg) = msg"
| "exn_str (KeyError k) = [CHR 0x27] @ k @ [CHR 0x27]"
| "exn_str (ValueError msg) = msg"
| "exn_str (FileNotFoundError msg) = msg"
| "exn_str (OSError msg) = msg"
| "exn_str (TimeoutError msg) = msg"
| "exn_str (UnidentifiedImageError msg) = msg"
| "exn_str (BotoCoreError msg) = msg"
| "exn_str NoCredentialsError = ''Unable to locate credentials''"
| "exn_str (ClientError code msg) = ''An error occurred ('' @ code @ ''): '' @ msg"
| "exn_str KeyboardInterrupt = []"
| "exn_str (SystemExit n) = str_nat n"

section \<open>comfy\_client.py: submitting, polling, fetching\<close>

record client =
  server_address :: string
  client_id :: string

text \<open>\<^verbatim>\<open>s.rstrip(c)\<close> for a single character.\<close>

definition rstrip :: "char \<Rightarrow> string \<Rightarrow> string" where
  "rstrip c s = rev (dropWhile (\<lambda>x. x = c) (rev s))"

definition ComfyUIClient :: "env \<Rightarrow> string \<Rightarrow> client" where
  "ComfyUIClient env server = \<lparr>server_address = rstrip CHR ''/'' server, client_id = uuid4 env\<rparr>"

subsection \<open>\<^verbatim>\<open>queue_prompt\<close>\<close>

text \<open>
  One POST to \<^verbatim>\<open>http://{server_address}/prompt\<close>. The handler for \<open>HTTPError\<close> reads the body
  of the error response, logs it and re-raises the same exception object, whose body is
  then read to its end. Any other exception leaves the method as it is.
\<close>

definition queue_prompt :: "env \<Rightarrow> client \<Rightarrow> json \<Rightarrow> world \<Rightarrow> (exn + string) \<times> world" where
  "queue_prompt env c prompt w =
     (let w1 = emit (PostPrompt (server_address c) prompt) w in
      case post_prompt env (server_address c) prompt of
        Inr prompt_id \<Rightarrow> (Inr prompt_id, w1)
      | Inl e \<Rightarrow>
          (case e of
             HTTPError code reason error_body \<Rightarrow>
               (Inl (HTTPError code reason []),
                logging ERROR (''HTTP '' @ str_nat code @ '': '' @ reason @ '' | '' @ error_body) w1)
           | _ \<Rightarrow> (Inl e, w1)))"

subsection \<open>\<^verbatim>\<open>get_history\<close> and \<^verbatim>\<open>wait_for_execution\<close>\<close>

text \<open>
  One GET of \<^verbatim>\<open>http://{server_address}/history/{prompt_id}\<close>; the request takes the time the
  environment says, and the answer is that of the environment for this poll.
\<close>

definition get_history :: "env \<Rightarrow> client \<Rightarrow> string \<Rightarrow> world \<Rightarrow> (exn + json) \<times> world" where
  "get_history env c prompt_id w =
     (history_response env (polls w),
      emit (GetHistory (server_address c) prompt_id)
        (w\<lparr>now := now w + poll_duration env (polls w)\<rparr>))"

text \<open>The condition \<^verbatim>\<open>prompt_id in history and history[prompt_id].get("outputs")\<close>.\<close>

definition history_ready :: "string \<Rightarrow> json \<Rightarrow> exn + bool" where
  "history_ready prompt_id history =
     (case py_contains prompt_id history of
        Inl e \<Rightarrow> Inl e
      | Inr False \<Rightarrow> Inr False
      | Inr True \<Rightarrow>
          (case py_getitem history prompt_id of
             Inl e \<Rightarrow> Inl e
           | Inr entry \<Rightarrow>
               (case py_get entry ''outputs'' JNull of
                  Inl e \<Rightarrow> Inl e
                | Inr outputs \<Rightarrow> Inr (py_truthy outputs))))"

text \<open>The value returned, \<^verbatim>\<open>history[prompt_id]["outputs"]\<close>.\<close>

definition history_result :: "string \<Rightarrow> json \<Rightarrow> exn + json" where
  "history_result prompt_id history =
     (case py_getitem history prompt_id of
        Inl e \<Rightarrow> Inl e
      | Inr entry \<Rightarrow> py_getitem entry ''outputs'')"

text \<open>
  \<^verbatim>\<open>except Exception as e: logging.warning(...)\<close>: an exception that is an \<open>Exception\<close> is
  logged and the loop goes on; any other leaves the method.
\<close>

definition polling_error :: "exn \<Rightarrow> world \<Rightarrow> (exn + json option) \<times> world" where
  "polling_error e w =
     (if is_Exception e then (Inr None, logging WARNING (''Polling error: '' @ exn_str e) w)
      else (Inl e, w))"

text \<open>
  The \<^verbatim>\<open>try\<close> statement of the loop body: \<open>Inr (Some outputs)\<close> when the method returns
  \<open>outputs\<close>, \<open>Inr None\<close> when control goes on to \<^verbatim>\<open>time.sleep\<close>.
\<close>

definition poll_once :: "env \<Rightarrow> client \<Rightarrow> string \<Rightarrow> world \<Rightarrow> (exn + json option) \<times> world" where
  "poll_once env c prompt_id w =
     (case get_history env c prompt_id w of
        (Inl e, w1) \<Rightarrow> polling_error e w1
      | (Inr history, w1) \<Rightarrow>
          (case history_ready prompt_id history of
             Inl e \<Rightarrow> polling_error e w1
           | Inr False \<Rightarrow> (Inr None, w1)
           | Inr True \<Rightarrow>
               (let w2 = logging INFO ''Prompt execution completed.'' w1 in
                case history_result prompt_id history of
                  Inl e \<Rightarrow> polling_error e w2
                | Inr outputs \<Rightarrow> (Inr (Some outputs), w2))))"

text \<open>
  \<^verbatim>\<open>time.sleep(secs)\<close> refuses a negative argument; otherwise the clock moves on by \<open>secs\<close>
  and by what the environment adds to this sleep.
\<close>

definition sleep :: "env \<Rightarrow> real \<Rightarrow> world \<Rightarrow> (exn + unit) \<times> world" where
  "sleep env secs w =
     (if secs < 0 then (Inl (ValueError ''sleep length must be non-negative''), w)
      else (Inr (), emit (Sleep secs) (w\<lparr>now := now w + secs + sleep_overshoot env (sleeps w)\<rparr>)))"

text \<open>
  The \<^verbatim>\<open>while\<close> loop with the \<^verbatim>\<open>raise\<close> after it. Nothing in the loop bounds the number of
  its rounds (an interval of \<open>0\<close> on a clock that stands still keeps it going), so the
  result is \<open>None\<close> when it never ends.
\<close>

partial_function (option) wait_loop ::
  "env \<Rightarrow> client \<Rightarrow> string \<Rightarrow> real \<Rightarrow> real \<Rightarrow> real \<Rightarrow> world \<Rightarrow> ((exn + json) \<times> world) option" where
  "wait_loop env c prompt_id start_time timeout interval w =
     (if now w - start_time < timeout then
        (case poll_once env c prompt_id w of
           (Inl e, w1) \<Rightarrow> Some (Inl e, w1)
         | (Inr (Some outputs), w1) \<Rightarrow> Some (Inr outputs, w1)
         | (Inr None, w1) \<Rightarrow>
             (case sleep env interval w1 of
                (Inl e, w2) \<Rightarrow> Some (Inl e, w2)
              | (Inr _, w2) \<Rightarrow> wait_loop env c prompt_id start_time timeout interval w2))
      else Some (Inl (TimeoutError ''Prompt execution timed out.''), w))"

definition wait_for_execution ::
  "env \<Rightarrow> client \<Rightarrow> string \<Rightarrow> real \<Rightarrow> real \<Rightarrow> world \<Rightarrow> ((exn + json) \<times> world) option" where
  "wait_for_execution env c prompt_id timeout interval w =
     (let start_time = now w;
          w1 = logging INFO (''Waiting for prompt '' @ prompt_id @ '' to complete...'') w
      in wait_loop env c prompt_id start_time timeout interval w1)"

subsection \<open>\<^verbatim>\<open>get_image_file\<close> and \<^verbatim>\<open>get_images\<close>\<close>

text \<open>
  One GET of \<^verbatim>\<open>http://{server_address}/view\<close> with the query \<open>filename\<close>, \<open>subfolder\<close>, \<open>type\<close>;
  the bytes of the answer, or the exception \<^verbatim>\<open>urlopen\<close> raised.
\<close>

definition get_image_file ::
  "env \<Rightarrow> string \<Rightarrow> json \<Rightarrow> json \<Rightarrow> json \<Rightarrow> world \<Rightarrow> (exn + bytes) \<times> world" where
  "get_image_file env server filename subfolder folder_type w =
     (view_response env (views w) filename subfolder folder_type,
      emit (GetView server filename subfolder folder_type) w)"

text \<open>The inner loop of \<^verbatim>\<open>get_images\<close>, over the images of one node.\<close>

fun get_node_images ::
  "env \<Rightarrow> client \<Rightarrow> json list \<Rightarrow> bytes list \<Rightarrow> world \<Rightarrow> (exn + bytes list) \<times> world" where
  "get_node_images env c [] node_images w = (Inr node_images, w)"
| "get_node_images env c (image_entry # rest) node_images w =
     (case py_getitem image_entry ''filename'' of
        Inl e \<Rightarrow> (Inl e, w)
      | Inr filename \<Rightarrow>
          (case py_getitem image_entry ''subfolder'' of
             Inl e \<Rightarrow> (Inl e, w)
           | Inr subfolder \<Rightarrow>
               (case py_getitem image_entry ''type'' of
                  Inl e \<Rightarrow> (Inl e, w)
                | Inr folder_type \<Rightarrow>
                    (case get_image_file env (server_address c) filename subfolder folder_type w of
                       (Inl e, w1) \<Rightarrow> (Inl e, w1)
                     | (Inr image_data, w1) \<Rightarrow>
                         get_node_images env c rest (node_images @ [image_data]) w1))))"

text \<open>The outer loop, over \<^verbatim>\<open>outputs.items()\<close>; \<open>images\<close> is the dict built so far.\<close>

fun get_output_images ::
  "env \<Rightarrow> client \<Rightarrow> (string \<times> json) list \<Rightarrow> (string \<times> bytes list) list \<Rightarrow> world
     \<Rightarrow> (exn + (string \<times> bytes list) list) \<times> world" where
  "get_output_images env c [] images w = (Inr images, w)"
| "get_output_images env c ((node_id, output) # rest) images w =
     (case py_get output ''images'' (JList []) of
        Inl e \<Rightarrow> (Inl e, w)
      | Inr listed \<Rightarrow>
          (case py_iter listed of
             Inl e \<Rightarrow> (Inl e, w)
           | Inr descriptors \<Rightarrow>
               (case get_node_images env c descriptors [] w of
                  (Inl e, w1) \<Rightarrow> (Inl e, w1)
                | (Inr node_images, w1) \<Rightarrow>
                    get_output_images env c rest (dict_set node_id node_images images) w1)))"

text \<open>Everything of \<^verbatim>\<open>get_images\<close> after the wait.\<close>

definition fetch_images ::
  "env \<Rightarrow> client \<Rightarrow> json \<Rightarrow> world \<Rightarrow> (exn + (string \<times> bytes list) list) \<times> world" where
  "fetch_images env c outputs w =
     (case py_items outputs of
        Inl e \<Rightarrow> (Inl e, w)
      | Inr items \<Rightarrow> get_output_images env c items [] w)"

definition get_images ::
  "env \<Rightarrow> client \<Rightarrow> json \<Rightarrow> world
     \<Rightarrow> ((exn + (string \<times> bytes list) list \<times> string) \<times> world) option" where
  "get_images env c prompt w =
     (case queue_prompt env c prompt w of
        (Inl e, w1) \<Rightarrow> Some (Inl e, w1)
      | (Inr prompt_id, w1) \<Rightarrow>
          (case wait_for_execution env c prompt_id 300 5 w1 of
             None \<Rightarrow> None
           | Some (Inl e, w2) \<Rightarrow> Some (Inl e, w2)
           | Some (Inr outputs, w2) \<Rightarrow>
               (case fetch_images env c outputs w2 of
                  (Inl e, w3) \<Rightarrow> Some (Inl e, w3)
                | (Inr images, w3) \<Rightarrow> Some (Inr (images, prompt_id), w3))))"

section \<open>Verification of the node patchers\<close>

lemma lower_negative: "lower ''negative'' = ''negative''"
  by (simp add: lower_def ascii_lower_def)


lemma node_record_cases:
  assumes "node_record node"
  obtains fields ct ins where "node = JDict fields"
    "map_of fields ''class_type'' = Some (JStr ct)"
    "map_of fields ''inputs'' = Some (JDict ins)"
    "map_of fields ''_meta'' = None"
  | fields ct ins m where "node = JDict fields"
    "map_of fields ''class_type'' = Some (JStr ct)"
    "map_of fields ''inputs'' = Some (JDict ins)"
    "map_of fields ''_meta'' = Some (JDict m)" "map_of m ''title'' = None"
  | fields ct ins m t where "node = JDict fields"
    "map_of fields ''class_type'' = Some (JStr ct)"
    "map_of fields ''inputs'' = Some (JDict ins)"
    "map_of fields ''_meta'' = Some (JDict m)" "map_of m ''title'' = Some (JStr t)"
proof (cases node)
  case (JDict fields)
  with assms have a: "case map_of fields ''class_type'' of Some (JStr _) \<Rightarrow> True | _ \<Rightarrow> False"
    and b: "case map_of fields ''inputs'' of Some (JDict _) \<Rightarrow> True | _ \<Rightarrow> False"
    and c: "case map_of fields ''_meta'' of
                None \<Rightarrow> True
              | Some (JDict m) \<Rightarrow>
                  (case map_of m ''title'' of None \<Rightarrow> True | Some (JStr _) \<Rightarrow> True | _ \<Rightarrow> False)
              | _ \<Rightarrow> False"
    by (simp_all add: node_record_def)
  from a obtain ct where ct: "map_of fields ''class_type'' = Some (JStr ct)"
    by (auto split: option.splits json.splits)
  from b obtain ins where ins: "map_of fields ''inputs'' = Some (JDict ins)"
    by (auto split: option.splits json.splits)
  show ?thesis
  proof (cases "map_of fields ''_meta''")
    case None
    with JDict ct ins show ?thesis by (rule that(1))
  next
    case (Some meta)
    with c obtain m where m: "meta = JDict m"
      by (cases meta) simp_all
    from Some m have meta: "map_of fields ''_meta'' = Some (JDict m)"
      by simp
    show ?thesis
    proof (cases "map_of m ''title''")
      case None
      with JDict ct ins meta show ?thesis by (rule that(2))
    next
      case (Some t)
      with c meta obtain s where "t = JStr s"
        by (cases t) simp_all
      with Some have "map_of m ''title'' = Some (JStr s)"
        by simp
      with JDict ct ins meta show ?thesis by (rule that(3))
    qed
  qed
qed (use assms in \<open>simp_all add: node_record_def\<close>)


lemma py_contains_dict [simp]: "py_contains k (JDict kvs) = Inr (map_of kvs k \<noteq> None)"
  by (simp add: py_contains_def)

lemma py_get_dict [simp]:
  "py_get (JDict kvs) k d = Inr (case map_of kvs k of Some v \<Rightarrow> v | None \<Rightarrow> d)"
  by (simp add: py_get_def)

lemma py_setitem_dict [simp]: "py_setitem (JDict kvs) k v = Inr (JDict (dict_set k v kvs))"
  by (simp add: py_setitem_def)

lemma py_lower_str [simp]: "py_lower (JStr s) = Inr (lower s)"
  by (simp add: py_lower_def)

lemma lower_Nil [simp]: "lower [] = []"
  by (simp add: lower_def)

lemmas spec_defs = spec_prompt_target_def has_role_def has_input_def node_title_def
  set_input_def lower_negative



lemma step_skip:
  assumes "node_record node" "\<not> spec_prompt_target node"
  shows "prompt_node_step k node p = Inr None"
  using assms(1)
proof (cases rule: node_record_cases)
  case 1 with assms(2) show ?thesis by (simp add: prompt_node_step_def spec_defs)
next
  case 2 with assms(2) show ?thesis by (simp add: prompt_node_step_def spec_defs)
next
  case 3 with assms(2) show ?thesis by (auto simp: prompt_node_step_def spec_defs)
qed

lemma step_hit:
  assumes "node_record node" "spec_prompt_target node"
  shows "prompt_node_step k node p =
     Inr (Some (set_input ''text'' (JStr p) node,
       (INFO, ''Patching CLIPTextEncode node '' @ k @ '' (title: '' @ lower (node_title node)
          @ '') with new prompt.'')))"
  using assms(1)
proof (cases rule: node_record_cases)
  case 1 with assms(2) show ?thesis by (auto simp: prompt_node_step_def spec_defs)
next
  case 2 with assms(2) show ?thesis by (auto simp: prompt_node_step_def spec_defs)
next
  case 3 with assms(2) show ?thesis by (auto simp: prompt_node_step_def spec_defs)
qed


lemma map_of_dict_set: "map_of (dict_set k v kvs) = (map_of kvs)(k \<mapsto> v)"
  by (induction kvs) auto

lemma keys_dict_set: "map_of kvs k \<noteq> None \<Longrightarrow> map fst (dict_set k v kvs) = map fst kvs"
  by (induction kvs) auto

lemma patch_prompt_items_none:
  "list_all (\<lambda>(_, n). node_record n \<and> \<not> spec_prompt_target n) items \<Longrightarrow>
   patch_prompt_items items p = Inr None"
  by (induction items) (auto simp: step_skip)

lemma patch_prompt_items_first:
  assumes "list_all (\<lambda>(_, n). node_record n \<and> \<not> spec_prompt_target n) pre"
    and "node_record node" and "spec_prompt_target node"
  shows "patch_prompt_items (pre @ (k, node) # post) p =
     Inr (Some (pre @ (k, set_input ''text'' (JStr p) node) # post,
       (INFO, ''Patching CLIPTextEncode node '' @ k @ '' (title: '' @ lower (node_title node)
          @ '') with new prompt.'')))"
  using assms(1)
proof (induction pre)
  case Nil
  show ?case by (simp add: step_hit [OF assms(2,3)])
next
  case (Cons a pre)
  then show ?case by (cases a) (simp add: step_skip)
qed

lemma set_input_lookup:
  assumes "has_input name node"
  shows "node_input name (set_input name v node) = Some v"
    and "name' \<noteq> name \<Longrightarrow> node_input name' (set_input name v node) = node_input name' node"
    and "f \<noteq> ''inputs'' \<Longrightarrow> node_field f (set_input name v node) = node_field f node"
    and "field_names (set_input name v node) = field_names node"
    and "input_names (set_input name v node) = input_names node"
  using assms
  by (auto simp: has_input_def set_input_def node_input_def node_field_def field_names_def
      input_names_def map_of_dict_set keys_dict_set split: json.splits option.splits)


lemma image_step_skip:
  assumes "node_record node" "\<not> spec_image_target node"
  shows "image_node_step k node info = Inr None"
  using assms(1)
proof (cases rule: node_record_cases)
  case 1 with assms(2) show ?thesis
    by (auto simp: image_node_step_def spec_image_target_def has_role_def has_input_def)
next
  case 2 with assms(2) show ?thesis
    by (auto simp: image_node_step_def spec_image_target_def has_role_def has_input_def)
next
  case 3 with assms(2) show ?thesis
    by (auto simp: image_node_step_def spec_image_target_def has_role_def has_input_def)
qed

lemma patch_image_items_none:
  "list_all (\<lambda>(_, n). node_record n \<and> \<not> spec_image_target n) items \<Longrightarrow>
   patch_image_items items info = Inr None"
  by (induction items) (auto simp: image_step_skip)

lemma patch_prompt_items_keys:
  "patch_prompt_items items p = Inr (Some (items', l)) \<Longrightarrow> map fst items' = map fst items"
proof (induction items arbitrary: items')
  case Nil
  then show ?case by simp
next
  case (Cons a items)
  obtain k n where a: "a = (k, n)" by (cases a)
  show ?case
  proof (cases "prompt_node_step k n p")
    case (Inl e)
    with Cons.prems a show ?thesis by simp
  next
    case (Inr r)
    show ?thesis
    proof (cases r)
      case None
      with Cons.prems a Inr obtain rest' where
        "patch_prompt_items items p = Inr (Some (rest', l))" "items' = (k, n) # rest'"
        by (auto split: sum.splits option.splits)
      with Cons.IH a show ?thesis by simp
    next
      case (Some x)
      with Cons.prems a Inr show ?thesis by (cases x) auto
    qed
  qed
qed

lemma patch_image_items_keys:
  "patch_image_items items info = Inr (Some (items', l)) \<Longrightarrow> map fst items' = map fst items"
proof (induction items arbitrary: items')
  case Nil
  then show ?case by simp
next
  case (Cons a items)
  obtain k n where a: "a = (k, n)" by (cases a)
  show ?case
  proof (cases "image_node_step k n info")
    case (Inl e)
    with Cons.prems a show ?thesis by simp
  next
    case (Inr r)
    show ?thesis
    proof (cases r)
      case None
      with Cons.prems a Inr obtain rest' where
        "patch_image_items items info = Inr (Some (rest', l))" "items' = (k, n) # rest'"
        by (auto split: sum.splits option.splits)
      with Cons.IH a show ?thesis by simp
    next
      case (Some x)
      with Cons.prems a Inr show ?thesis by (cases x) auto
    qed
  qed
qed

lemma patch_prompt_text_node_keys:
  "field_names (fst (snd (patch_prompt_text_node w p))) = field_names w"
  by (auto simp: patch_prompt_text_node_def py_items_def field_names_def
      dest: patch_prompt_items_keys split: json.splits sum.splits option.splits)

lemma patch_load_image_node_keys:
  "field_names (fst (snd (patch_load_image_node w info))) = field_names w"
  by (auto simp: patch_load_image_node_def py_items_def field_names_def
      dest: patch_image_items_keys split: json.splits sum.splits option.splits)

lemma list_all_conj_record:
  "list_all (\<lambda>(_, n). node_record n) xs \<Longrightarrow> list_all (\<lambda>(_, n). \<not> P n) xs \<Longrightarrow>
   list_all (\<lambda>(_, n). node_record n \<and> \<not> P n) xs"
  by (induction xs) auto

text \<open>
  Claim C4. In a workflow document, let the node \<open>node_id\<close> be the first one, in the order
  of the mapping, that is a text-encoding node (\<open>CLIPTextEncode\<close>) whose optional title
  does not contain "negative" in any case and whose inputs have a \<open>text\<close> field. Then
  \<^verbatim>\<open>patch_prompt_text_node\<close> returns normally, and the document afterwards is the old one
  with that node alone replaced: its \<open>text\<close> input is the supplied string, every other
  input and every other field of the node keeps its value and its place. The nodes before
  it (among them every negative-titled one) and the nodes after it (also further
  eligible ones) are untouched.
\<close>

theorem prompt_patcher_first_match:
  assumes "workflow_document (JDict (pre @ (node_id, node) # post))"
    and "list_all (\<lambda>(_, n). \<not> spec_prompt_target n) pre"
    and "spec_prompt_target node"
  shows "patch_prompt_text_node (JDict (pre @ (node_id, node) # post)) p =
      (Inr (), JDict (pre @ (node_id, set_input ''text'' (JStr p) node) # post),
       [(INFO, ''Patching CLIPTextEncode node '' @ node_id @ '' (title: ''
          @ lower (node_title node) @ '') with new prompt.'')])
    \<and> node_input ''text'' (set_input ''text'' (JStr p) node) = Some (JStr p)
    \<and> (\<forall>name. name \<noteq> ''text'' \<longrightarrow>
          node_input name (set_input ''text'' (JStr p) node) = node_input name node)
    \<and> (\<forall>f. f \<noteq> ''inputs'' \<longrightarrow>
          node_field f (set_input ''text'' (JStr p) node) = node_field f node)
    \<and> field_names (set_input ''text'' (JStr p) node) = field_names node
    \<and> input_names (set_input ''text'' (JStr p) node) = input_names node"
proof -
  from assms(1) have rec: "list_all (\<lambda>(_, n). node_record n) pre" "node_record node"
    by (simp_all add: workflow_document_def)
  from rec(1) assms(2) have "list_all (\<lambda>(_, n). node_record n \<and> \<not> spec_prompt_target n) pre"
    by (rule list_all_conj_record)
  from patch_prompt_items_first [OF this rec(2) assms(3)]
  have "patch_prompt_text_node (JDict (pre @ (node_id, node) # post)) p =
      (Inr (), JDict (pre @ (node_id, set_input ''text'' (JStr p) node) # post),
       [(INFO, ''Patching CLIPTextEncode node '' @ node_id @ '' (title: ''
          @ lower (node_title node) @ '') with new prompt.'')])"
    by (simp add: patch_prompt_text_node_def py_items_def)
  moreover from assms(3) have "has_input ''text'' node"
    by (simp add: spec_prompt_target_def)
  ultimately show ?thesis
    by (simp add: set_input_lookup)
qed

text \<open>
  Claim C5. On a workflow document with no eligible text-encoding node the prompt
  patcher raises the \<open>ValueError\<close> that reports the missing node, and on one with no
  \<open>LoadImage\<close> node that has an \<open>image\<close> input the image-reference patcher does; in both
  cases the document is left as it was and nothing is logged. Whatever their outcome,
  the patchers leave the list of node identifiers as it was: they never create a node.
\<close>

theorem patchers_node_not_found:
  assumes "workflow_document w"
  shows "(list_all (\<lambda>(_, n). \<not> spec_prompt_target n) (workflow_nodes w) \<longrightarrow>
        patch_prompt_text_node w p =
          (Inl (ValueError
             ''No suitable CLIPTextEncode node (non-negative) with 'text' input found in workflow.''),
           w, []))
    \<and> (list_all (\<lambda>(_, n). \<not> spec_image_target n) (workflow_nodes w) \<longrightarrow>
        patch_load_image_node w image_info =
          (Inl (ValueError ''No LoadImage node with 'image' input found in workflow.''), w, []))
    \<and> field_names (fst (snd (patch_prompt_text_node w p))) = field_names w
    \<and> field_names (fst (snd (patch_load_image_node w image_info))) = field_names w"
proof -
  from assms obtain nodes where w: "w = JDict nodes"
    and rec: "list_all (\<lambda>(_, n). node_record n) nodes"
    by (cases w) (simp_all add: workflow_document_def)
  have "patch_prompt_items nodes p = Inr None"
    if "list_all (\<lambda>(_, n). \<not> spec_prompt_target n) nodes"
    using list_all_conj_record [OF rec that] by (rule patch_prompt_items_none)
  then have 1: "list_all (\<lambda>(_, n). \<not> spec_prompt_target n) (workflow_nodes w) \<longrightarrow>
        patch_prompt_text_node w p =
          (Inl (ValueError
             ''No suitable CLIPTextEncode node (non-negative) with 'text' input found in workflow.''),
           w, [])"
    using w by (simp add: workflow_nodes_def patch_prompt_text_node_def py_items_def)
  have "patch_image_items nodes image_info = Inr None"
    if "list_all (\<lambda>(_, n). \<not> spec_image_target n) nodes"
    using list_all_conj_record [OF rec that] by (rule patch_image_items_none)
  then have 2: "list_all (\<lambda>(_, n). \<not> spec_image_target n) (workflow_nodes w) \<longrightarrow>
        patch_load_image_node w image_info =
          (Inl (ValueError ''No LoadImage node with 'image' input found in workflow.''), w, [])"
    using w by (simp add: workflow_nodes_def patch_load_image_node_def py_items_def)
  from 1 2 show ?thesis
    using patch_prompt_text_node_keys [of w p] patch_load_image_node_keys [of w image_info]
    by blast
qed


lemmas eval_defs = workflow_document_def node_record_def spec_prompt_target_def
  spec_image_target_def has_role_def has_input_def node_title_def set_input_def
  workflow_nodes_def lower_def ascii_lower_def sublist_Cons_right

theorem prompt_patcher_first_match_witness:
  "workflow_document (JDict
      [(''7'', JDict [(''class_type'', JStr ''CLIPTextEncode''),
                      (''_meta'', JDict [(''title'', JStr ''Negative'')]),
                      (''inputs'', JDict [(''text'', JStr ''blurry'')])]),
       (''6'', JDict [(''class_type'', JStr ''CLIPTextEncode''),
                      (''inputs'', JDict [(''text'', JStr ''old''), (''clip'', JInt 4)])]),
       (''8'', JDict [(''class_type'', JStr ''CLIPTextEncode''),
                      (''inputs'', JDict [(''text'', JStr ''other'')])])])
   \<and> list_all (\<lambda>(_, n). \<not> spec_prompt_target n)
      [(''7'', JDict [(''class_type'', JStr ''CLIPTextEncode''),
                      (''_meta'', JDict [(''title'', JStr ''Negative'')]),
                      (''inputs'', JDict [(''text'', JStr ''blurry'')])])]
   \<and> spec_prompt_target
      (JDict [(''class_type'', JStr ''CLIPTextEncode''),
              (''inputs'', JDict [(''text'', JStr ''old''), (''clip'', JInt 4)])])
   \<and> patch_prompt_text_node (JDict
      [(''7'', JDict [(''class_type'', JStr ''CLIPTextEncode''),
                      (''_meta'', JDict [(''title'', JStr ''Negative'')]),
                      (''inputs'', JDict [(''text'', JStr ''blurry'')])]),
       (''6'', JDict [(''class_type'', JStr ''CLIPTextEncode''),
                      (''inputs'', JDict [(''text'', JStr ''old''), (''clip'', JInt 4)])]),
       (''8'', JDict [(''class_type'', JStr ''CLIPTextEncode''),
                      (''inputs'', JDict [(''text'', JStr ''other'')])])]) ''a cat''
     = (Inr (), JDict
      [(''7'', JDict [(''class_type'', JStr ''CLIPTextEncode''),
                      (''_meta'', JDict [(''title'', JStr ''Negative'')]),
                      (''inputs'', JDict [(''text'', JStr ''blurry'')])]),
       (''6'', JDict [(''class_type'', JStr ''CLIPTextEncode''),
                      (''inputs'', JDict [(''text'', JStr ''a cat''), (''clip'', JInt 4)])]),
       (''8'', JDict [(''class_type'', JStr ''CLIPTextEncode''),
                      (''inputs'', JDict [(''text'', JStr ''other'')])])],
       [(INFO, ''Patching CLIPTextEncode node 6 (title: ) with new prompt.'')])"
proof -
  let ?neg = "JDict [(''class_type'', JStr ''CLIPTextEncode''),
                      (''_meta'', JDict [(''title'', JStr ''Negative'')]),
                      (''inputs'', JDict [(''text'', JStr ''blurry'')])]"
  let ?pos = "JDict [(''class_type'', JStr ''CLIPTextEncode''),
              (''inputs'', JDict [(''text'', JStr ''old''), (''clip'', JInt 4)])]"
  let ?post = "[(''8'', JDict [(''class_type'', JStr ''CLIPTextEncode''),
                      (''inputs'', JDict [(''text'', JStr ''other'')])])]"
  have h1: "workflow_document (JDict ([(''7'', ?neg)] @ (''6'', ?pos) # ?post))"
    by (simp add: eval_defs)
  have h2: "list_all (\<lambda>(_, n). \<not> spec_prompt_target n) [(''7'', ?neg)]"
    by (simp add: eval_defs)
  have h3: "spec_prompt_target ?pos"
    by (simp add: eval_defs)
  have s: "set_input ''text'' (JStr ''a cat'') ?pos =
      JDict [(''class_type'', JStr ''CLIPTextEncode''),
             (''inputs'', JDict [(''text'', JStr ''a cat''), (''clip'', JInt 4)])]"
    by (simp add: set_input_def)
  have t: "lower (node_title ?pos) = []"
    by (simp add: node_title_def)
  from prompt_patcher_first_match [OF h1 h2 h3, of "''a cat''"] h1 h2 h3
  show ?thesis
    unfolding s t by simp
qed

theorem patchers_node_not_found_witness:
  "workflow_document (JDict
      [(''7'', JDict [(''class_type'', JStr ''CLIPTextEncode''),
                      (''_meta'', JDict [(''title'', JStr ''Negative'')]),
                      (''inputs'', JDict [(''text'', JStr ''blurry'')])]),
       (''3'', JDict [(''class_type'', JStr ''KSampler''),
                      (''inputs'', JDict [(''seed'', JInt 5)])])])
   \<and> patch_prompt_text_node (JDict
      [(''7'', JDict [(''class_type'', JStr ''CLIPTextEncode''),
                      (''_meta'', JDict [(''title'', JStr ''Negative'')]),
                      (''inputs'', JDict [(''text'', JStr ''blurry'')])]),
       (''3'', JDict [(''class_type'', JStr ''KSampler''),
                      (''inputs'', JDict [(''seed'', JInt 5)])])]) ''a cat''
     = (Inl (ValueError
          ''No suitable CLIPTextEncode node (non-negative) with 'text' input found in workflow.''),
        JDict
      [(''7'', JDict [(''class_type'', JStr ''CLIPTextEncode''),
                      (''_meta'', JDict [(''title'', JStr ''Negative'')]),
                      (''inputs'', JDict [(''text'', JStr ''blurry'')])]),
       (''3'', JDict [(''class_type'', JStr ''KSampler''),
                      (''inputs'', JDict [(''seed'', JInt 5)])])], [])
   \<and> patch_load_image_node (JDict
      [(''7'', JDict [(''class_type'', JStr ''CLIPTextEncode''),
                      (''_meta'', JDict [(''title'', JStr ''Negative'')]),
                      (''inputs'', JDict [(''text'', JStr ''blurry'')])]),
       (''3'', JDict [(''class_type'', JStr ''KSampler''),
                      (''inputs'', JDict [(''seed'', JInt 5)])])])
        (JDict [(''name'', JStr ''cat.png'')])
     = (Inl (ValueError ''No LoadImage node with 'image' input found in workflow.''),
        JDict
      [(''7'', JDict [(''class_type'', JStr ''CLIPTextEncode''),
                      (''_meta'', JDict [(''title'', JStr ''Negative'')]),
                      (''inputs'', JDict [(''text'', JStr ''blurry'')])]),
       (''3'', JDict [(''class_type'', JStr ''KSampler''),
                      (''inputs'', JDict [(''seed'', JInt 5)])])], [])"
proof -
  let ?w = "JDict
      [(''7'', JDict [(''class_type'', JStr ''CLIPTextEncode''),
                      (''_meta'', JDict [(''title'', JStr ''Negative'')]),
                      (''inputs'', JDict [(''text'', JStr ''blurry'')])]),
       (''3'', JDict [(''class_type'', JStr ''KSampler''),
                      (''inputs'', JDict [(''seed'', JInt 5)])])]"
  have h1: "workflow_document ?w"
    by (simp add: eval_defs)
  have h2: "list_all (\<lambda>(_, n). \<not> spec_prompt_target n) (workflow_nodes ?w)"
    by (simp add: eval_defs)
  have h3: "list_all (\<lambda>(_, n). \<not> spec_image_target n) (workflow_nodes ?w)"
    by (simp add: eval_defs)
  from patchers_node_not_found [OF h1, of "''a cat''" "JDict [(''name'', JStr ''cat.png'')]"]
    h1 h2 h3
  show ?thesis by blast
qed

end
